theory Spec2Isabelle
  imports Main
begin

section \<open>JavaScript values\<close>

text \<open>
  The middleware of \<^verbatim>\<open>src/index.ts\<close> handles schemas, request parts and error parameters
  as plain JavaScript values. Objects are association lists (the first binding of a key is
  the one a property read sees). Numbers are kept as integers: the code only ever tests a
  value for truthiness, and no claim depends on a fractional number or on NaN.
\<close>

datatype jsValue =
    JUndefined
  | JNull
  | JBool bool
  | JNum int
  | JStr string
  | JArr "jsValue list"
  | JObj "(string \<times> jsValue) list"

text \<open>Truthiness, as the conditional operator and \<^verbatim>\<open>||\<close> test it.\<close>

fun truthy :: "jsValue \<Rightarrow> bool" where
  "truthy JUndefined = False"
| "truthy JNull = False"
| "truthy (JBool b) = b"
| "truthy (JNum n) = (n \<noteq> 0)"
| "truthy (JStr s) = (s \<noteq> [])"
| "truthy (JArr xs) = True"
| "truthy (JObj kvs) = True"

text \<open>\<^verbatim>\<open>a || b\<close>: the left operand when it is truthy, the right one otherwise.\<close>

definition jsOr :: "jsValue \<Rightarrow> jsValue \<Rightarrow> jsValue" where
  "jsOr a b = (if truthy a then a else b)"

text \<open>
  \<^verbatim>\<open>v?.k\<close> for a key that no primitive and no array carries: undefined on
  \<^verbatim>\<open>undefined\<close> and \<^verbatim>\<open>null\<close> (the optional chain), the property of an object when it has
  one, undefined otherwise.
\<close>

fun optGet :: "jsValue \<Rightarrow> string \<Rightarrow> jsValue" where
  "optGet (JObj kvs) k = (case map_of kvs k of Some v \<Rightarrow> v | None \<Rightarrow> JUndefined)"
| "optGet v k = JUndefined"

section \<open>The validation engine's interface\<close>

text \<open>
  An \<^verbatim>\<open>ErrorObject\<close> of the engine, with the fields the middleware reads
  (\<^verbatim>\<open>message\<close> is optional in the engine's type).
\<close>

record errorObject =
  instancePath :: string
  keyword :: string
  message :: "string option"
  params :: jsValue

text \<open>
  A compiled \<^verbatim>\<open>ValidateFunction\<close>: called on a value, it either throws or returns the
  verdict and assigns its \<^verbatim>\<open>errors\<close> property (\<^verbatim>\<open>None\<close> is \<^verbatim>\<open>null\<close>). A validator
  of the engine can throw: a recursive schema run on a deeply nested value exhausts the call
  stack. The engine assigns \<^verbatim>\<open>errors\<close> in its last statement, so a call that throws leaves
  the property as it was. The engine is created with its default options, under which a
  validator reads the value and does not change it.
\<close>

datatype error = SchemaError string | RangeError string

type_synonym validateFunction = "jsValue \<Rightarrow> error + bool \<times> errorObject list option"

text \<open>
  \<^verbatim>\<open>ajv.compile\<close>: given the schemas this engine instance has compiled before and a
  schema, either throws or returns a validator.
\<close>

type_synonym compiler = "jsValue list \<Rightarrow> jsValue \<Rightarrow> error + validateFunction"

section \<open>Requests, responses and the observable state\<close>

record request =
  body :: jsValue
  query :: jsValue
  headers :: jsValue

record finding =
  field :: jsValue
  message :: "string option"
  keyword :: string
  params :: jsValue

record payload =
  error :: string
  schema :: jsValue
  details :: "finding list option"

datatype part = Body | Query | Headers

text \<open>
  What the code reads and writes outside its arguments: the \<^verbatim>\<open>errors\<close> property of each
  compiled validator, the responses written through \<^verbatim>\<open>res.status(..).json(..)\<close> and the
  number of calls of \<^verbatim>\<open>next\<close>. Two logs record the calls of \<^verbatim>\<open>ajv.compile\<close> and of the
  validators, so that the order and number of these calls can be stated.
\<close>

record world =
  compiled :: "jsValue list"
  evaluated :: "part list"
  validateBody_errors :: "errorObject list option"
  validateQuery_errors :: "errorObject list option"
  validateHeaders_errors :: "errorObject list option"
  responses :: "(nat \<times> payload) list"
  nextCalls :: nat

record validationSchemas =
  bodySchema :: jsValue
  querySchema :: jsValue
  headersSchema :: jsValue

text \<open>The variables the returned handler closes over (\<^verbatim>\<open>None\<close> is \<^verbatim>\<open>null\<close>).\<close>

record closure = validationSchemas +
  validateBody :: "validateFunction option"
  validateQuery :: "validateFunction option"
  validateHeaders :: "validateFunction option"

section \<open>The handler\<close>

text \<open>The arrow function mapped over the engine's errors (the same in all three parts).\<close>

definition toFinding :: "errorObject \<Rightarrow> finding" where
  "toFinding err =
     \<lparr> field = jsOr (JStr (instancePath err))
                 (jsOr (optGet (errorObject.params err) ''missingProperty'') (JStr ''root'')),
       message = errorObject.message err,
       keyword = errorObject.keyword err,
       params = errorObject.params err \<rparr>"

definition res_status_json :: "nat \<Rightarrow> payload \<Rightarrow> world \<Rightarrow> world" where
  "res_status_json code p w = w\<lparr>responses := responses w @ [(code, p)]\<rparr>"

definition "next" :: "world \<Rightarrow> world" where
  "next w = w\<lparr>nextCalls := Suc (nextCalls w)\<rparr>"

text \<open>
  The handler is one function with three blocks, each ending in \<^verbatim>\<open>return\<close> when its
  validator rejects; a block that does not return falls through to the next one. No block
  catches an exception, so a validator call that throws ends the handler there: \<open>Inl\<close> is
  the exception that leaves the handler, \<open>Inr ()\<close> its normal return. The result also
  carries the request as the call leaves it and the state.
\<close>

type_synonym 'a outcome = "(error + unit) \<times> 'a request_scheme \<times> world"

definition headersStage :: "closure \<Rightarrow> 'a request_scheme \<Rightarrow> world \<Rightarrow> 'a outcome" where
  "headersStage c req w =
     (case validateHeaders c of
        Some validate \<Rightarrow>
          (case validate (headers req) of
             Inl e \<Rightarrow> (Inl e, req, w\<lparr>evaluated := evaluated w @ [Headers]\<rparr>)
           | Inr (valid, errs) \<Rightarrow>
               (let w1 = w\<lparr>evaluated := evaluated w @ [Headers],
                           validateHeaders_errors := errs\<rparr>
                in if \<not> valid
                   then (Inr (), req, res_status_json 400
                           \<lparr> error = ''Headers validation failed'',
                             schema = headersSchema c,
                             details = map_option (map toFinding) (validateHeaders_errors w1) \<rparr>
                           w1)
                   else (Inr (), req, next w1)))
      | None \<Rightarrow> (Inr (), req, next w))"

definition queryStage :: "closure \<Rightarrow> 'a request_scheme \<Rightarrow> world \<Rightarrow> 'a outcome" where
  "queryStage c req w =
     (case validateQuery c of
        Some validate \<Rightarrow>
          (case validate (query req) of
             Inl e \<Rightarrow> (Inl e, req, w\<lparr>evaluated := evaluated w @ [Query]\<rparr>)
           | Inr (valid, errs) \<Rightarrow>
               (let w1 = w\<lparr>evaluated := evaluated w @ [Query],
                           validateQuery_errors := errs\<rparr>
                in if \<not> valid
                   then (Inr (), req, res_status_json 400
                           \<lparr> error = ''Query parameters validation failed'',
                             schema = querySchema c,
                             details = map_option (map toFinding) (validateQuery_errors w1) \<rparr>
                           w1)
                   else headersStage c req w1))
      | None \<Rightarrow> headersStage c req w)"

definition handler :: "closure \<Rightarrow> 'a request_scheme \<Rightarrow> world \<Rightarrow> 'a outcome" where
  "handler c req w =
     (case validateBody c of
        Some validate \<Rightarrow>
          (case validate (body req) of
             Inl e \<Rightarrow> (Inl e, req, w\<lparr>evaluated := evaluated w @ [Body]\<rparr>)
           | Inr (valid, errs) \<Rightarrow>
               (let w1 = w\<lparr>evaluated := evaluated w @ [Body],
                           validateBody_errors := errs\<rparr>
                in if \<not> valid
                   then (Inr (), req, res_status_json 400
                           \<lparr> error = ''Request body validation failed'',
                             schema = bodySchema c,
                             details = map_option (map toFinding) (validateBody_errors w1) \<rparr>
                           w1)
                   else queryStage c req w1))
      | None \<Rightarrow> queryStage c req w)"

section \<open>The factory\<close>

text \<open>
  \<^verbatim>\<open>schema ? ajv.compile(schema) : null\<close>, on an engine instance that has compiled \<open>hist\<close>
  so far. A throw of \<^verbatim>\<open>ajv.compile\<close> is the \<open>Inl\<close> result.
\<close>

definition compileIfGiven ::
  "compiler \<Rightarrow> jsValue list \<Rightarrow> jsValue \<Rightarrow> world \<Rightarrow> (error + validateFunction option) \<times> jsValue list \<times> world" where
  "compileIfGiven ajv_compile hist s w =
     (if truthy s
      then (case ajv_compile hist s of
              Inl e \<Rightarrow> (Inl e, hist @ [s], w\<lparr>compiled := compiled w @ [s]\<rparr>)
            | Inr v \<Rightarrow> (Inr (Some v), hist @ [s], w\<lparr>compiled := compiled w @ [s]\<rparr>))
      else (Inr None, hist, w))"

definition createMiddleware ::
  "compiler \<Rightarrow> validationSchemas \<Rightarrow> world
     \<Rightarrow> (error + ('a request_scheme \<Rightarrow> world \<Rightarrow> 'a outcome)) \<times> world" where
  "createMiddleware ajv_compile schemas w =
     (case compileIfGiven ajv_compile [] (bodySchema schemas) w of
        (Inl e, _, w1) \<Rightarrow> (Inl e, w1)
      | (Inr vb, h1, w1) \<Rightarrow>
     (case compileIfGiven ajv_compile h1 (querySchema schemas) w1 of
        (Inl e, _, w2) \<Rightarrow> (Inl e, w2)
      | (Inr vq, h2, w2) \<Rightarrow>
     (case compileIfGiven ajv_compile h2 (headersSchema schemas) w2 of
        (Inl e, _, w3) \<Rightarrow> (Inl e, w3)
      | (Inr vh, _, w3) \<Rightarrow>
          (Inr (handler \<lparr> bodySchema = bodySchema schemas,
                          querySchema = querySchema schemas,
                          headersSchema = headersSchema schemas,
                          validateBody = vb, validateQuery = vq, validateHeaders = vh \<rparr>),
           w3))))"

section \<open>The specification's readings\<close>

text \<open>
  A part passes when no validator was compiled for it or its validator returns true; its
  check returns when no validator was compiled for it or the validator's call does not
  throw.
\<close>

definition accepts :: "validateFunction option \<Rightarrow> jsValue \<Rightarrow> bool" where
  "accepts vo d =
     (case vo of
        None \<Rightarrow> True
      | Some v \<Rightarrow> (case v d of Inl e \<Rightarrow> False | Inr (valid, errs) \<Rightarrow> valid))"

definition returns :: "validateFunction option \<Rightarrow> jsValue \<Rightarrow> bool" where
  "returns vo d =
     (case vo of
        None \<Rightarrow> True
      | Some v \<Rightarrow> (case v d of Inl e \<Rightarrow> False | Inr r \<Rightarrow> True))"


text \<open>
  The specification's rule for a finding's field, in its own words: the instance path if
  non-empty; else the name of the missing property (which the engine reports as
  \<^verbatim>\<open>params.missingProperty\<close>) if the failing rule is the \<^verbatim>\<open>required\<close> rule; else
  \<^verbatim>\<open>"root"\<close>.
\<close>

definition spec_field :: "errorObject \<Rightarrow> jsValue" where
  "spec_field err =
     (if instancePath err \<noteq> [] then JStr (instancePath err)
      else if errorObject.keyword err = ''required''
           then optGet (errorObject.params err) ''missingProperty''
      else JStr ''root'')"




text \<open>
  The validator of a part whose schema is \<open>x\<close>, on an engine that has compiled \<open>hist\<close>
  before: the one the engine compiles from \<open>x\<close> when \<open>x\<close> is truthy, none otherwise. The
  closure built from them is the one a factory call that returns hands to its handler
  (lemma \<open>createMiddleware_closure\<close>).
\<close>

definition validatorOf :: "compiler \<Rightarrow> jsValue list \<Rightarrow> jsValue \<Rightarrow> validateFunction option" where
  "validatorOf cmp hist x =
     (if truthy x then (case cmp hist x of Inl e \<Rightarrow> None | Inr v \<Rightarrow> Some v) else None)"

definition closureOf :: "compiler \<Rightarrow> validationSchemas \<Rightarrow> closure" where
  "closureOf cmp s =
     \<lparr> bodySchema = bodySchema s, querySchema = querySchema s,
       headersSchema = headersSchema s,
       validateBody = validatorOf cmp [] (bodySchema s),
       validateQuery = validatorOf cmp (filter truthy [bodySchema s]) (querySchema s),
       validateHeaders =
         validatorOf cmp (filter truthy [bodySchema s, querySchema s]) (headersSchema s) \<rparr>"

section \<open>A sample engine, sample schemas and sample requests\<close>

text \<open>
  Concrete inputs for the instances below. The sample engine knows the \<^verbatim>\<open>required\<close> list
  of a schema object, reports the first missing property the way the real engine does, and
  rejects a schema whose \<^verbatim>\<open>required\<close> is not an array. A boolean schema accepts every
  value or none. A schema whose \<^verbatim>\<open>items\<close> refer back to it (\<^verbatim>\<open>$ref: "#"\<close>) is recursive:
  its validator descends into nested one-element arrays and throws when the nesting exceeds
  its stack of two frames.
\<close>

definition world0 :: world where
  "world0 = \<lparr> compiled = [], evaluated = [], validateBody_errors = None,
              validateQuery_errors = None, validateHeaders_errors = None,
              responses = [], nextCalls = 0 \<rparr>"

definition missingError :: "string \<Rightarrow> errorObject" where
  "missingError n =
     \<lparr> instancePath = [], keyword = ''required'',
       message = Some (''must have required property '' @ n),
       params = JObj [(''missingProperty'', JStr n)] \<rparr>"

definition sampleRequired :: "string list \<Rightarrow> validateFunction" where
  "sampleRequired names data =
     (case filter (\<lambda>n. optGet data n = JUndefined) names of
        [] \<Rightarrow> Inr (True, None)
      | n # _ \<Rightarrow> Inr (False, Some [missingError n]))"

fun strings :: "jsValue list \<Rightarrow> string list" where
  "strings [] = []"
| "strings (JStr s # vs) = s # strings vs"
| "strings (v # vs) = strings vs"

definition falseSchemaError :: errorObject where
  "falseSchemaError =
     \<lparr> instancePath = [], keyword = ''false schema'',
       message = Some ''boolean schema is false'', params = JObj [] \<rparr>"

definition acceptAll :: validateFunction where
  "acceptAll d = Inr (True, None)"

definition rejectAll :: validateFunction where
  "rejectAll d = Inr (False, Some [falseSchemaError])"

fun nesting :: "jsValue \<Rightarrow> nat" where
  "nesting (JArr [x]) = Suc (nesting x)"
| "nesting v = 0"

definition sampleRecursive :: validateFunction where
  "sampleRecursive d =
     (if 2 < nesting d then Inl (RangeError ''Maximum call stack size exceeded'')
      else Inr (True, None))"

definition sampleCompile :: compiler where
  "sampleCompile hist s =
     (case s of
        JBool b \<Rightarrow> Inr (if b then acceptAll else rejectAll)
      | _ \<Rightarrow>
          (if optGet (optGet s ''items'') ''$ref'' = JStr ''#'' then Inr sampleRecursive
           else (case optGet s ''required'' of
                   JArr ns \<Rightarrow> Inr (sampleRequired (strings ns))
                 | JUndefined \<Rightarrow> Inr acceptAll
                 | _ \<Rightarrow> Inl (SchemaError ''schema is invalid: data/required must be array''))))"

definition userSchema :: jsValue where
  "userSchema = JObj [(''type'', JStr ''object''),
                      (''required'', JArr [JStr ''email'', JStr ''name''])]"

definition pageSchema :: jsValue where
  "pageSchema = JObj [(''type'', JStr ''object''), (''required'', JArr [JStr ''page''])]"

definition keySchema :: jsValue where
  "keySchema = JObj [(''type'', JStr ''object''), (''required'', JArr [JStr ''x-api-key''])]"


definition recursiveSchema :: jsValue where
  "recursiveSchema = JObj [(''type'', JStr ''array''), (''items'', JObj [(''$ref'', JStr ''#'')])]"

definition allSchemas :: validationSchemas where
  "allSchemas = \<lparr> bodySchema = userSchema, querySchema = pageSchema, headersSchema = keySchema \<rparr>"

definition sampleClosure :: closure where
  "sampleClosure =
     \<lparr> bodySchema = userSchema, querySchema = pageSchema, headersSchema = keySchema,
       validateBody = Some (sampleRequired [''email'', ''name'']),
       validateQuery = Some (sampleRequired [''page'']),
       validateHeaders = Some (sampleRequired [''x-api-key'']) \<rparr>"



definition recursiveClosure :: closure where
  "recursiveClosure =
     \<lparr> bodySchema = recursiveSchema, querySchema = JUndefined, headersSchema = JUndefined,
       validateBody = Some sampleRecursive, validateQuery = None, validateHeaders = None \<rparr>"

definition goodBody :: jsValue where
  "goodBody = JObj [(''name'', JStr ''Al''), (''email'', JStr ''a@b.com'')]"

definition goodQuery :: jsValue where
  "goodQuery = JObj [(''page'', JStr ''2'')]"

definition goodHeaders :: jsValue where
  "goodHeaders = JObj [(''x-api-key'', JStr ''0123456789abcdefghij'')]"

definition reqGood :: request where
  "reqGood = \<lparr> body = goodBody, query = goodQuery, headers = goodHeaders \<rparr>"

definition reqBadBodyAndQuery :: request where
  "reqBadBodyAndQuery =
     \<lparr> body = JObj [(''name'', JStr ''Al'')], query = JObj [], headers = goodHeaders \<rparr>"

definition reqBadQuery :: request where
  "reqBadQuery = \<lparr> body = goodBody, query = JObj [], headers = goodHeaders \<rparr>"

definition reqBadHeaders :: request where
  "reqBadHeaders = \<lparr> body = goodBody, query = goodQuery, headers = JObj [] \<rparr>"

definition reqDeep :: request where
  "reqDeep = \<lparr> body = JArr [JArr [JArr [JArr []]]], query = JObj [], headers = JObj [] \<rparr>"

text \<open>An engine error for a dependency rule, and one for a required property named \<^verbatim>\<open>""\<close>.\<close>

definition dependencyError :: errorObject where
  "dependencyError =
     \<lparr> instancePath = [], keyword = ''dependencies'',
       message = Some ''must have property b when property a is present'',
       params = JObj [(''property'', JStr ''a''), (''missingProperty'', JStr ''b''),
                      (''depsCount'', JNum 1), (''deps'', JStr ''b'')] \<rparr>"

definition emptyNameError :: errorObject where
  "emptyNameError = missingError []"

section \<open>Basic facts\<close>

lemmas handler_defs = handler_def queryStage_def headersStage_def res_status_json_def next_def


lemma truthy_defined: "truthy x \<Longrightarrow> x \<noteq> JUndefined"
  by auto

lemma compileIfGiven_falsy:
  "\<not> truthy x \<Longrightarrow> compileIfGiven cmp hist x w = (Inr None, hist, w)"
  by (simp add: compileIfGiven_def)

lemma compileIfGiven_truthy:
  "truthy x \<Longrightarrow> compileIfGiven cmp hist x w =
     (map_sum id Some (cmp hist x), hist @ [x], w\<lparr>compiled := compiled w @ [x]\<rparr>)"
  by (simp add: compileIfGiven_def split: sum.splits)

text \<open>
  Whatever the factory returns is the handler above, closed over the schemas as they were
  supplied and over the validators the engine compiled from the truthy ones.
\<close>

lemma createMiddleware_closure:
  assumes "createMiddleware cmp s w = (Inr h, w')"
  shows "h = handler (closureOf cmp s)"
  using assms
  by (cases "truthy (bodySchema s)"; cases "truthy (querySchema s)";
      cases "truthy (headersSchema s)")
     (auto simp: createMiddleware_def closureOf_def validatorOf_def compileIfGiven_falsy
        compileIfGiven_truthy split: sum.splits)



section \<open>The handler, stage by stage\<close>


lemma handler_body_rejects:
  assumes "validateBody c = Some v" and "v (body req) = Inr (False, errs)"
  shows "handler c req w =
           (Inr (), req,
            w\<lparr>evaluated := evaluated w @ [Body], validateBody_errors := errs,
              responses := responses w @
                [(400, \<lparr> error = ''Request body validation failed'', schema = bodySchema c,
                         details = map_option (map toFinding) errs \<rparr>)]\<rparr>)"
  using assms by (simp add: handler_defs)

lemma closureOf_simps:
  "bodySchema (closureOf cmp s) = bodySchema s"
  "querySchema (closureOf cmp s) = querySchema s"
  "headersSchema (closureOf cmp s) = headersSchema s"
  "validateBody (closureOf cmp s) = validatorOf cmp [] (bodySchema s)"
  "validateQuery (closureOf cmp s) = validatorOf cmp (filter truthy [bodySchema s]) (querySchema s)"
  "validateHeaders (closureOf cmp s) =
     validatorOf cmp (filter truthy [bodySchema s, querySchema s]) (headersSchema s)"
  by (simp_all add: closureOf_def)


section \<open>The order of the checks\<close>




section \<open>The findings\<close>

text \<open>
  Claim C2, as the code has it. The field of a finding is the error's instance path when
  that is non-empty; otherwise the value of the error's \<^verbatim>\<open>params.missingProperty\<close> when
  the parameters carry a non-empty one, whatever the keyword of the failing rule (the
  engine sets it for a missing required property and for a missing dependency alike);
  otherwise, when the parameters carry none, the string \<^verbatim>\<open>"root"\<close>. In particular, when
  the first error the engine reports for a rejected body is an error at the root whose
  \<^verbatim>\<open>params.missingProperty\<close> is a non-empty name, as the engine's \<^verbatim>\<open>required\<close> error for
  a named property is, the first detail of the response has that name as its field.
\<close>

theorem C2_field_of_finding:
  "(instancePath err \<noteq> [] \<longrightarrow> field (toFinding err) = JStr (instancePath err))
   \<and> (\<forall>n. instancePath err = [] \<and> n \<noteq> []
          \<and> optGet (errorObject.params err) ''missingProperty'' = JStr n
        \<longrightarrow> field (toFinding err) = JStr n)
   \<and> (instancePath err = []
          \<and> optGet (errorObject.params err) ''missingProperty'' = JUndefined
        \<longrightarrow> field (toFinding err) = JStr ''root'')
   \<and> (\<forall>v es n. validateBody c = Some v \<and> v (body req) = Inr (False, Some (err # es))
          \<and> instancePath err = [] \<and> n \<noteq> []
          \<and> optGet (errorObject.params err) ''missingProperty'' = JStr n
        \<longrightarrow> (\<exists>p d ds. fst (handler c req w) = Inr ()
                \<and> responses (snd (snd (handler c req w))) = responses w @ [(400, p)]
                \<and> details p = Some (d # ds) \<and> field d = JStr n))"
proof -
  have fld: "field (toFinding err) = JStr n"
    if "instancePath err = []" "n \<noteq> []"
       "optGet (errorObject.params err) ''missingProperty'' = JStr n" for n
    using that by (simp add: toFinding_def jsOr_def)
  have first: "\<exists>p d ds. fst (handler c req w) = Inr ()
                \<and> responses (snd (snd (handler c req w))) = responses w @ [(400, p)]
                \<and> details p = Some (d # ds) \<and> field d = JStr n"
    if "validateBody c = Some v" "v (body req) = Inr (False, Some (err # es))"
       "instancePath err = []" "n \<noteq> []"
       "optGet (errorObject.params err) ''missingProperty'' = JStr n" for v es n
    using handler_body_rejects [OF that(1,2), of w] fld [OF that(3,4,5)] by simp
  have path: "instancePath err \<noteq> [] \<longrightarrow> field (toFinding err) = JStr (instancePath err)"
    by (simp add: toFinding_def jsOr_def)
  have root: "instancePath err = []
          \<and> optGet (errorObject.params err) ''missingProperty'' = JUndefined
        \<longrightarrow> field (toFinding err) = JStr ''root''"
    by (simp add: toFinding_def jsOr_def)
  from path fld root first show ?thesis by blast
qed

theorem C2_field_of_finding_witness:
  "field (toFinding (missingError ''email''\<lparr>instancePath := ''/email''\<rparr>)) = JStr ''/email''
   \<and> field (toFinding dependencyError) = JStr ''b''
   \<and> field (toFinding (dependencyError\<lparr>errorObject.params := JObj [(''format'', JStr ''email'')]\<rparr>))
       = JStr ''root''
   \<and> sampleRequired [''email'', ''name''] (body reqBadBodyAndQuery)
       = Inr (False, Some [missingError ''email''])
   \<and> (\<exists>p d ds. fst (handler sampleClosure reqBadBodyAndQuery world0) = Inr ()
          \<and> responses (snd (snd (handler sampleClosure reqBadBodyAndQuery world0)))
               = responses world0 @ [(400, p)]
          \<and> details p = Some (d # ds) \<and> field d = JStr ''email'')"
proof -
  have v: "validateBody sampleClosure = Some (sampleRequired [''email'', ''name''])"
    by (simp add: sampleClosure_def)
  have r: "sampleRequired [''email'', ''name''] (body reqBadBodyAndQuery)
       = Inr (False, Some [missingError ''email''])"
    by (simp add: sampleRequired_def reqBadBodyAndQuery_def)
  have 1: "field (toFinding (missingError ''email''\<lparr>instancePath := ''/email''\<rparr>))
             = JStr ''/email''"
    using C2_field_of_finding [of "missingError ''email''\<lparr>instancePath := ''/email''\<rparr>",
            THEN conjunct1]
    by (simp add: missingError_def)
  have 2: "field (toFinding dependencyError) = JStr ''b''"
    using C2_field_of_finding [of dependencyError, THEN conjunct2, THEN conjunct1,
            rule_format, of "''b''"]
    by (simp add: dependencyError_def)
  have 3: "field (toFinding
             (dependencyError\<lparr>errorObject.params := JObj [(''format'', JStr ''email'')]\<rparr>))
           = JStr ''root''"
    using C2_field_of_finding
            [of "dependencyError\<lparr>errorObject.params := JObj [(''format'', JStr ''email'')]\<rparr>",
             THEN conjunct2, THEN conjunct2, THEN conjunct1]
    by (simp add: dependencyError_def)
  have 4: "\<exists>p d ds. fst (handler sampleClosure reqBadBodyAndQuery world0) = Inr ()
          \<and> responses (snd (snd (handler sampleClosure reqBadBodyAndQuery world0)))
               = responses world0 @ [(400, p)]
          \<and> details p = Some (d # ds) \<and> field d = JStr ''email''"
    using C2_field_of_finding [of "missingError ''email''" sampleClosure reqBadBodyAndQuery
            world0, THEN conjunct2, THEN conjunct2, THEN conjunct2, rule_format,
            of "sampleRequired [''email'', ''name'']" "[]" "''email''"]
          v r
    by (simp add: missingError_def)
  from 1 2 3 4 r show ?thesis by simp
qed

text \<open>
  The claim as the specification words it fails in both directions: a dependency error at
  the root is no \<^verbatim>\<open>required\<close> error and still gets the missing property as its field,
  not \<^verbatim>\<open>"root"\<close>; and a \<^verbatim>\<open>required\<close> error for the property named \<^verbatim>\<open>""\<close> gets
  \<^verbatim>\<open>"root"\<close>, not the property's name.
\<close>

theorem C2_field_counterexample:
  "field (toFinding dependencyError) = JStr ''b''
   \<and> spec_field dependencyError = JStr ''root''
   \<and> field (toFinding emptyNameError) = JStr ''root''
   \<and> spec_field emptyNameError = JStr []"
  by (simp add: toFinding_def spec_field_def jsOr_def dependencyError_def emptyNameError_def
        missingError_def)

section \<open>The failure response\<close>

lemma handler_query_rejects:
  assumes "accepts (validateBody c) (body req)"
      and "validateQuery c = Some v" and "v (query req) = Inr (False, errs)"
  shows "fst (handler c req w) = Inr ()"
    and "fst (snd (handler c req w)) = req"
    and "responses (snd (snd (handler c req w))) = responses w @
           [(400, \<lparr> error = ''Query parameters validation failed'', schema = querySchema c,
                    details = map_option (map toFinding) errs \<rparr>)]"
    and "nextCalls (snd (snd (handler c req w))) = nextCalls w"
  using assms
  by (auto simp: handler_defs accepts_def Let_def split: option.splits prod.splits sum.splits)

lemma handler_headers_rejects:
  assumes "accepts (validateBody c) (body req)" and "accepts (validateQuery c) (query req)"
      and "validateHeaders c = Some v" and "v (headers req) = Inr (False, errs)"
  shows "fst (handler c req w) = Inr ()"
    and "fst (snd (handler c req w)) = req"
    and "responses (snd (snd (handler c req w))) = responses w @
           [(400, \<lparr> error = ''Headers validation failed'', schema = headersSchema c,
                    details = map_option (map toFinding) errs \<rparr>)]"
    and "nextCalls (snd (snd (handler c req w))) = nextCalls w"
  using assms
  by (auto simp: handler_defs accepts_def Let_def split: option.splits prod.splits sum.splits)

text \<open>
  Claim C3. When the first validator that rejects is the one of the body, of the query or
  of the headers, the handler returns normally, having written exactly one response: status
  400 with the message of that part, the schema the closure holds for that part, and as
  details the engine's errors mapped one by one, in the engine's order, to findings that
  copy message, keyword and params (absent when the validator left no error list);
  \<^verbatim>\<open>next\<close> is not called. The schemas the closure holds are the ones the factory was given.
\<close>

theorem C3_failure_response:
  "(\<forall>v errs. validateBody c = Some v \<and> v (body req) = Inr (False, errs) \<longrightarrow>
      handler c req w =
        (Inr (), req,
         w\<lparr>evaluated := evaluated w @ [Body], validateBody_errors := errs,
           responses := responses w @
             [(400, \<lparr> error = ''Request body validation failed'',
                      schema = bodySchema c,
                      details = map_option (map toFinding) errs \<rparr>)]\<rparr>))
   \<and> (\<forall>v errs. accepts (validateBody c) (body req) \<and> validateQuery c = Some v
         \<and> v (query req) = Inr (False, errs) \<longrightarrow>
      fst (handler c req w) = Inr ()
      \<and> fst (snd (handler c req w)) = req
      \<and> responses (snd (snd (handler c req w))) = responses w @
                  [(400, \<lparr> error = ''Query parameters validation failed'',
                           schema = querySchema c,
                           details = map_option (map toFinding) errs \<rparr>)]
      \<and> nextCalls (snd (snd (handler c req w))) = nextCalls w)
   \<and> (\<forall>v errs. accepts (validateBody c) (body req) \<and> accepts (validateQuery c) (query req)
         \<and> validateHeaders c = Some v \<and> v (headers req) = Inr (False, errs) \<longrightarrow>
      fst (handler c req w) = Inr ()
      \<and> fst (snd (handler c req w)) = req
      \<and> responses (snd (snd (handler c req w))) = responses w @
                  [(400, \<lparr> error = ''Headers validation failed'',
                           schema = headersSchema c,
                           details = map_option (map toFinding) errs \<rparr>)]
      \<and> nextCalls (snd (snd (handler c req w))) = nextCalls w)
   \<and> (\<forall>e. finding.message (toFinding e) = errorObject.message e
          \<and> finding.keyword (toFinding e) = errorObject.keyword e
          \<and> finding.params (toFinding e) = errorObject.params e)
   \<and> (\<forall>cmp s w0 w1 h. createMiddleware cmp s w0
            = (Inr (h :: 'a request_scheme \<Rightarrow> world \<Rightarrow> 'a outcome), w1) \<longrightarrow>
         (\<exists>c'. h = handler c' \<and> bodySchema c' = bodySchema s
            \<and> querySchema c' = querySchema s \<and> headersSchema c' = headersSchema s))"
proof -
  have link: "\<exists>c'. h = handler c' \<and> bodySchema c' = bodySchema s
            \<and> querySchema c' = querySchema s \<and> headersSchema c' = headersSchema s"
    if "createMiddleware cmp s w0 = (Inr h, w1)"
    for cmp s w0 w1 and h :: "'a request_scheme \<Rightarrow> world \<Rightarrow> 'a outcome"
    using createMiddleware_closure [OF that]
    by (intro exI [of _ "closureOf cmp s"]) (simp add: closureOf_simps)
  have copy: "\<forall>e. finding.message (toFinding e) = errorObject.message e
          \<and> finding.keyword (toFinding e) = errorObject.keyword e
          \<and> finding.params (toFinding e) = errorObject.params e"
    by (simp add: toFinding_def)
  have b: "\<forall>v errs. validateBody c = Some v \<and> v (body req) = Inr (False, errs) \<longrightarrow>
      handler c req w =
        (Inr (), req,
         w\<lparr>evaluated := evaluated w @ [Body], validateBody_errors := errs,
           responses := responses w @
             [(400, \<lparr> error = ''Request body validation failed'',
                      schema = bodySchema c,
                      details = map_option (map toFinding) errs \<rparr>)]\<rparr>)"
    by (intro allI impI, elim conjE) (rule handler_body_rejects)
  have q: "\<forall>v errs. accepts (validateBody c) (body req) \<and> validateQuery c = Some v
         \<and> v (query req) = Inr (False, errs) \<longrightarrow>
      fst (handler c req w) = Inr ()
      \<and> fst (snd (handler c req w)) = req
      \<and> responses (snd (snd (handler c req w))) = responses w @
                  [(400, \<lparr> error = ''Query parameters validation failed'',
                           schema = querySchema c,
                           details = map_option (map toFinding) errs \<rparr>)]
      \<and> nextCalls (snd (snd (handler c req w))) = nextCalls w"
    by (intro allI impI, elim conjE) (simp add: handler_query_rejects)
  have h: "\<forall>v errs. accepts (validateBody c) (body req) \<and> accepts (validateQuery c) (query req)
         \<and> validateHeaders c = Some v \<and> v (headers req) = Inr (False, errs) \<longrightarrow>
      fst (handler c req w) = Inr ()
      \<and> fst (snd (handler c req w)) = req
      \<and> responses (snd (snd (handler c req w))) = responses w @
                  [(400, \<lparr> error = ''Headers validation failed'',
                           schema = headersSchema c,
                           details = map_option (map toFinding) errs \<rparr>)]
      \<and> nextCalls (snd (snd (handler c req w))) = nextCalls w"
    by (intro allI impI, elim conjE) (simp add: handler_headers_rejects)
  have l: "\<forall>cmp s w0 w1 h. createMiddleware cmp s w0
            = (Inr (h :: 'a request_scheme \<Rightarrow> world \<Rightarrow> 'a outcome), w1) \<longrightarrow>
         (\<exists>c'. h = handler c' \<and> bodySchema c' = bodySchema s
            \<and> querySchema c' = querySchema s \<and> headersSchema c' = headersSchema s)"
    using link by blast
  from b q h copy l show ?thesis by (intro conjI)
qed

theorem C3_failure_response_witness:
  "sampleRequired [''email'', ''name''] (body reqBadBodyAndQuery)
       = Inr (False, Some [missingError ''email''])
   \<and> handler sampleClosure reqBadBodyAndQuery world0 =
       (Inr (), reqBadBodyAndQuery,
        world0\<lparr>evaluated := [Body], validateBody_errors := Some [missingError ''email''],
               responses :=
                 [(400, \<lparr> error = ''Request body validation failed'', schema = userSchema,
                          details = Some [toFinding (missingError ''email'')] \<rparr>)]\<rparr>)
   \<and> accepts (validateBody sampleClosure) (body reqBadQuery)
   \<and> sampleRequired [''page''] (query reqBadQuery)
       = Inr (False, Some [missingError ''page''])
   \<and> fst (handler sampleClosure reqBadQuery world0) = Inr ()
   \<and> responses (snd (snd (handler sampleClosure reqBadQuery world0))) =
        [(400, \<lparr> error = ''Query parameters validation failed'', schema = pageSchema,
                 details = Some [toFinding (missingError ''page'')] \<rparr>)]
   \<and> nextCalls (snd (snd (handler sampleClosure reqBadQuery world0))) = 0
   \<and> accepts (validateBody sampleClosure) (body reqBadHeaders)
   \<and> accepts (validateQuery sampleClosure) (query reqBadHeaders)
   \<and> sampleRequired [''x-api-key''] (headers reqBadHeaders)
       = Inr (False, Some [missingError ''x-api-key''])
   \<and> fst (handler sampleClosure reqBadHeaders world0) = Inr ()
   \<and> responses (snd (snd (handler sampleClosure reqBadHeaders world0))) =
        [(400, \<lparr> error = ''Headers validation failed'', schema = keySchema,
                 details = Some [toFinding (missingError ''x-api-key'')] \<rparr>)]
   \<and> nextCalls (snd (snd (handler sampleClosure reqBadHeaders world0))) = 0
   \<and> createMiddleware sampleCompile allSchemas world0
       = (Inr (handler sampleClosure :: request \<Rightarrow> world \<Rightarrow> unit outcome),
          world0\<lparr>compiled := [userSchema, pageSchema, keySchema]\<rparr>)
   \<and> (\<exists>c'. (handler sampleClosure :: request \<Rightarrow> world \<Rightarrow> unit outcome) = handler c'
          \<and> bodySchema c' = userSchema \<and> querySchema c' = pageSchema
          \<and> headersSchema c' = keySchema)"
proof -
  have run: "createMiddleware sampleCompile allSchemas world0
       = (Inr (handler sampleClosure :: request \<Rightarrow> world \<Rightarrow> unit outcome),
          world0\<lparr>compiled := [userSchema, pageSchema, keySchema]\<rparr>)"
    by (simp add: createMiddleware_def compileIfGiven_def sampleCompile_def sampleClosure_def
          allSchemas_def userSchema_def pageSchema_def keySchema_def world0_def)
  have b: "sampleRequired [''email'', ''name''] (body reqBadBodyAndQuery)
       = Inr (False, Some [missingError ''email''])"
    by (simp add: sampleRequired_def reqBadBodyAndQuery_def)
  have q: "sampleRequired [''page''] (query reqBadQuery)
       = Inr (False, Some [missingError ''page''])"
    by (simp add: sampleRequired_def reqBadQuery_def)
  have h: "sampleRequired [''x-api-key''] (headers reqBadHeaders)
       = Inr (False, Some [missingError ''x-api-key''])"
    by (simp add: sampleRequired_def reqBadHeaders_def)
  have aq: "accepts (validateBody sampleClosure) (body reqBadQuery)"
    by (simp add: accepts_def sampleClosure_def sampleRequired_def reqBadQuery_def goodBody_def)
  have ah: "accepts (validateBody sampleClosure) (body reqBadHeaders)"
           "accepts (validateQuery sampleClosure) (query reqBadHeaders)"
    by (simp_all add: accepts_def sampleClosure_def sampleRequired_def reqBadHeaders_def
          goodBody_def goodQuery_def)
  have vs: "validateBody sampleClosure = Some (sampleRequired [''email'', ''name''])"
           "validateQuery sampleClosure = Some (sampleRequired [''page''])"
           "validateHeaders sampleClosure = Some (sampleRequired [''x-api-key''])"
           "bodySchema sampleClosure = userSchema" "querySchema sampleClosure = pageSchema"
           "headersSchema sampleClosure = keySchema"
    by (simp_all add: sampleClosure_def)
  have sch: "bodySchema allSchemas = userSchema" "querySchema allSchemas = pageSchema"
            "headersSchema allSchemas = keySchema"
    by (simp_all add: allSchemas_def)
  have w0: "evaluated world0 = []" "responses world0 = []" "nextCalls world0 = 0"
    by (simp_all add: world0_def)
  have 1: "handler sampleClosure reqBadBodyAndQuery world0 =
       (Inr (), reqBadBodyAndQuery,
        world0\<lparr>evaluated := [Body], validateBody_errors := Some [missingError ''email''],
               responses :=
                 [(400, \<lparr> error = ''Request body validation failed'', schema = userSchema,
                          details = Some [toFinding (missingError ''email'')] \<rparr>)]\<rparr>)"
    using C3_failure_response [of sampleClosure reqBadBodyAndQuery world0, THEN conjunct1,
            rule_format, of "sampleRequired [''email'', ''name'']" "Some [missingError ''email'']"]
          b vs w0
    by simp
  have 2: "fst (handler sampleClosure reqBadQuery world0) = Inr ()
     \<and> responses (snd (snd (handler sampleClosure reqBadQuery world0))) =
        [(400, \<lparr> error = ''Query parameters validation failed'', schema = pageSchema,
                 details = Some [toFinding (missingError ''page'')] \<rparr>)]
     \<and> nextCalls (snd (snd (handler sampleClosure reqBadQuery world0))) = 0"
    using C3_failure_response [of sampleClosure reqBadQuery world0, THEN conjunct2,
            THEN conjunct1, rule_format,
            of "sampleRequired [''page'']" "Some [missingError ''page'']"]
          q aq vs w0
    by simp
  have 3: "fst (handler sampleClosure reqBadHeaders world0) = Inr ()
     \<and> responses (snd (snd (handler sampleClosure reqBadHeaders world0))) =
        [(400, \<lparr> error = ''Headers validation failed'', schema = keySchema,
                 details = Some [toFinding (missingError ''x-api-key'')] \<rparr>)]
     \<and> nextCalls (snd (snd (handler sampleClosure reqBadHeaders world0))) = 0"
    using C3_failure_response [of sampleClosure reqBadHeaders world0, THEN conjunct2,
            THEN conjunct2, THEN conjunct1, rule_format,
            of "sampleRequired [''x-api-key'']" "Some [missingError ''x-api-key'']"]
          h ah vs w0
    by simp
  have 4: "\<exists>c'. (handler sampleClosure :: request \<Rightarrow> world \<Rightarrow> unit outcome) = handler c'
          \<and> bodySchema c' = userSchema \<and> querySchema c' = pageSchema
          \<and> headersSchema c' = keySchema"
    using C3_failure_response [of sampleClosure reqGood world0, THEN conjunct2,
            THEN conjunct2, THEN conjunct2, THEN conjunct2, rule_format, OF run]
    by (simp add: sch)
  from b q h aq ah 1 2 3 4 run show ?thesis by simp
qed

section \<open>Requests that pass\<close>

lemma handler_all_accept:
  assumes "accepts (validateBody c) (body req)" and "accepts (validateQuery c) (query req)"
      and "accepts (validateHeaders c) (headers req)"
  shows "fst (handler c req w) = Inr ()"
    and "fst (snd (handler c req w)) = req"
    and "responses (snd (snd (handler c req w))) = responses w"
    and "nextCalls (snd (snd (handler c req w))) = Suc (nextCalls w)"
  using assms
  by (auto simp: handler_defs accepts_def Let_def split: option.splits prod.splits sum.splits)

lemma handler_body_accepts:
  assumes "accepts (validateBody c) (body req)"
      and "responses (snd (snd (handler c req w))) = responses w @ [(code, p)]"
  shows "error p \<noteq> ''Request body validation failed''"
  using assms
  by (auto simp: handler_defs accepts_def Let_def
        split: option.splits prod.splits sum.splits if_splits)

text \<open>
  Claim C4. When every validator that exists accepts its part of the request, the handler
  returns normally, writes no response and calls \<^verbatim>\<open>next\<close> exactly once, and the request
  it leaves behind is the request it was given. In particular, when the body passes, no
  response with the body-stage message is written, whatever the other parts do.
\<close>

theorem C4_valid_request_passes:
  "(accepts (validateBody c) (body req) \<and> accepts (validateQuery c) (query req)
      \<and> accepts (validateHeaders c) (headers req) \<longrightarrow>
      fst (handler c req w) = Inr ()
      \<and> fst (snd (handler c req w)) = req
      \<and> responses (snd (snd (handler c req w))) = responses w
      \<and> nextCalls (snd (snd (handler c req w))) = Suc (nextCalls w))
   \<and> (\<forall>code p. accepts (validateBody c) (body req)
         \<and> responses (snd (snd (handler c req w))) = responses w @ [(code, p)] \<longrightarrow>
        error p \<noteq> ''Request body validation failed'')"
  using handler_all_accept [of c req w] handler_body_accepts [of c req w]
  by blast

theorem C4_valid_request_passes_witness:
  "accepts (validateBody sampleClosure) (body reqGood)
   \<and> accepts (validateQuery sampleClosure) (query reqGood)
   \<and> accepts (validateHeaders sampleClosure) (headers reqGood)
   \<and> fst (handler sampleClosure reqGood world0) = Inr ()
   \<and> fst (snd (handler sampleClosure reqGood world0)) = reqGood
   \<and> responses (snd (snd (handler sampleClosure reqGood world0))) = []
   \<and> nextCalls (snd (snd (handler sampleClosure reqGood world0))) = 1
   \<and> accepts (validateBody sampleClosure) (body reqBadQuery)
   \<and> responses (snd (snd (handler sampleClosure reqBadQuery world0))) =
        responses world0 @
        [(400, \<lparr> error = ''Query parameters validation failed'', schema = pageSchema,
                 details = Some [toFinding (missingError ''page'')] \<rparr>)]
   \<and> error \<lparr> error = ''Query parameters validation failed'', schema = pageSchema,
               details = Some [toFinding (missingError ''page'')] \<rparr>
       \<noteq> ''Request body validation failed''"
proof -
  have a: "accepts (validateBody sampleClosure) (body reqGood)"
          "accepts (validateQuery sampleClosure) (query reqGood)"
          "accepts (validateHeaders sampleClosure) (headers reqGood)"
          "accepts (validateBody sampleClosure) (body reqBadQuery)"
    by (simp_all add: accepts_def sampleClosure_def sampleRequired_def reqGood_def
          reqBadQuery_def goodBody_def goodQuery_def goodHeaders_def)
  have w0: "responses world0 = []" "nextCalls world0 = 0"
    by (simp_all add: world0_def)
  have r: "responses (snd (snd (handler sampleClosure reqBadQuery world0))) =
        responses world0 @
        [(400, \<lparr> error = ''Query parameters validation failed'', schema = pageSchema,
                 details = Some [toFinding (missingError ''page'')] \<rparr>)]"
    by (simp add: handler_defs sampleClosure_def sampleRequired_def reqBadQuery_def
          goodBody_def world0_def)
  have 1: "fst (handler sampleClosure reqGood world0) = Inr ()
      \<and> fst (snd (handler sampleClosure reqGood world0)) = reqGood
      \<and> responses (snd (snd (handler sampleClosure reqGood world0))) = responses world0
      \<and> nextCalls (snd (snd (handler sampleClosure reqGood world0))) = Suc (nextCalls world0)"
    using C4_valid_request_passes [of sampleClosure reqGood world0, THEN conjunct1] a
    by simp
  have 2: "error \<lparr> error = ''Query parameters validation failed'', schema = pageSchema,
               details = Some [toFinding (missingError ''page'')] \<rparr>
       \<noteq> ''Request body validation failed''"
    using C4_valid_request_passes [of sampleClosure reqBadQuery world0, THEN conjunct2,
            rule_format, OF conjI [OF a(4) r]] .
  from a r 1 2 w0 show ?thesis by simp
qed

text \<open>
  Claim C5. With no schema supplied the factory compiles nothing and cannot throw, and the
  handler it returns does one thing on every request: it calls \<^verbatim>\<open>next\<close> once and returns.
  It writes no response, calls no validator, and the request is the one it was given.
\<close>

theorem C5_no_schemas:
  "\<exists>h. createMiddleware ajv_compile
          \<lparr> bodySchema = JUndefined, querySchema = JUndefined, headersSchema = JUndefined \<rparr> w0
        = (Inr h, w0)
      \<and> (\<forall>req w. h req w = (Inr (), req, w\<lparr>nextCalls := Suc (nextCalls w)\<rparr>))"
  by (simp add: createMiddleware_def compileIfGiven_def handler_defs)

section \<open>Running the handler again\<close>

text \<open>
  Claim C6. Running the handler a second time on the request the first run left behind, with
  the validators in the state the first run left them in and the same response and
  \<^verbatim>\<open>next\<close> observers as the first run started with, ends exactly as the first run ended:
  the same validators were called with the same verdicts, the same response with the same
  details was written or \<^verbatim>\<open>next\<close> was called (or the same exception left the handler),
  whatever errors the validators held before the first run.
\<close>

theorem C6_idempotent:
  "(case handler c req w of
      (r, req1, w1) \<Rightarrow>
        handler c req1 (w1\<lparr>responses := responses w, nextCalls := nextCalls w,
                           evaluated := evaluated w\<rparr>) = (r, req1, w1))"
  by (auto simp: handler_defs Let_def split: option.splits prod.splits sum.splits if_splits)

section \<open>What the outcome depends on\<close>

text \<open>
  Claim C9. Two requests with the same body, query and headers end the same way and lead to
  the same state, whatever else they carry: the same validator calls, the same response
  with the same payload, the same calls of \<^verbatim>\<open>next\<close>.
\<close>

theorem C9_depends_on_three_parts:
  "body r1 = body r2 \<Longrightarrow> query r1 = query r2 \<Longrightarrow> headers r1 = headers r2 \<Longrightarrow>
   fst (handler c r1 w) = fst (handler c r2 w)
   \<and> snd (snd (handler c r1 w)) = snd (snd (handler c r2 w))"
  by (auto simp: handler_defs Let_def split: option.splits prod.splits sum.splits)

theorem C9_depends_on_three_parts_witness:
  "body (request.extend reqBadQuery ''GET'') = body (request.extend reqBadQuery (True, ''/users''))
   \<and> query (request.extend reqBadQuery ''GET'')
       = query (request.extend reqBadQuery (True, ''/users''))
   \<and> headers (request.extend reqBadQuery ''GET'')
       = headers (request.extend reqBadQuery (True, ''/users''))
   \<and> fst (handler sampleClosure (request.extend reqBadQuery ''GET'') world0)
       = fst (handler sampleClosure (request.extend reqBadQuery (True, ''/users'')) world0)
   \<and> snd (snd (handler sampleClosure (request.extend reqBadQuery ''GET'') world0))
       = snd (snd (handler sampleClosure (request.extend reqBadQuery (True, ''/users'')) world0))"
  using C9_depends_on_three_parts
          [of "request.extend reqBadQuery ''GET''" "request.extend reqBadQuery (True, ''/users'')"
              sampleClosure world0]
  by (simp add: request.defs)

section \<open>The request is left alone\<close>

text \<open>
  Claim C10. In every branch, also when a validator rejects and a 400 response is written
  (and also when a validator call throws), the request after the call is the request before
  the call, in every field.
\<close>

theorem C10_request_unchanged:
  "fst (snd (handler c req w)) = req"
  by (auto simp: handler_defs Let_def split: option.splits prod.splits sum.splits)

section \<open>One outcome per request\<close>

lemma handler_trichotomy:
  "(fst (handler c req w) = Inr ()
      \<and> (\<exists>p. responses (snd (snd (handler c req w))) = responses w @ [(400, p)])
      \<and> nextCalls (snd (snd (handler c req w))) = nextCalls w)
   \<or> (fst (handler c req w) = Inr ()
      \<and> responses (snd (snd (handler c req w))) = responses w
      \<and> nextCalls (snd (snd (handler c req w))) = Suc (nextCalls w))
   \<or> ((\<exists>e. fst (handler c req w) = Inl e)
      \<and> responses (snd (snd (handler c req w))) = responses w
      \<and> nextCalls (snd (snd (handler c req w))) = nextCalls w)"
  by (auto simp: handler_defs Let_def split: option.splits prod.splits sum.splits)

lemma handler_returns:
  assumes "returns (validateBody c) (body req)" and "returns (validateQuery c) (query req)"
      and "returns (validateHeaders c) (headers req)"
  shows "fst (handler c req w) = Inr ()"
  using assms
  by (auto simp: handler_defs returns_def Let_def split: option.splits prod.splits sum.splits)

text \<open>
  Claim C8, as the code has it. For every request and every combination of validators, the
  handler ends in exactly one of three ways: it writes exactly one response, with status
  400, does not call \<^verbatim>\<open>next\<close> and returns; or it calls \<^verbatim>\<open>next\<close> exactly once, writes no
  response and returns; or a validator call throws, and the exception leaves the handler
  with no response written and \<^verbatim>\<open>next\<close> not called. So it never does both and never
  writes more than one response. When the call of every existing validator returns on its
  part of the request, the handler returns, and then it has done exactly one of the first
  two.
\<close>

theorem C8_one_outcome:
  "((fst (handler c req w) = Inr ()
      \<and> (\<exists>p. responses (snd (snd (handler c req w))) = responses w @ [(400, p)])
      \<and> nextCalls (snd (snd (handler c req w))) = nextCalls w)
    \<or> (fst (handler c req w) = Inr ()
      \<and> responses (snd (snd (handler c req w))) = responses w
      \<and> nextCalls (snd (snd (handler c req w))) = Suc (nextCalls w))
    \<or> ((\<exists>e. fst (handler c req w) = Inl e)
      \<and> responses (snd (snd (handler c req w))) = responses w
      \<and> nextCalls (snd (snd (handler c req w))) = nextCalls w))
   \<and> (returns (validateBody c) (body req) \<and> returns (validateQuery c) (query req)
        \<and> returns (validateHeaders c) (headers req) \<longrightarrow>
       fst (handler c req w) = Inr ()
       \<and> (((\<exists>p. responses (snd (snd (handler c req w))) = responses w @ [(400, p)])
            \<and> nextCalls (snd (snd (handler c req w))) = nextCalls w)
          \<or> (responses (snd (snd (handler c req w))) = responses w
            \<and> nextCalls (snd (snd (handler c req w))) = Suc (nextCalls w))))"
proof -
  have ret: "fst (handler c req w) = Inr ()
       \<and> (((\<exists>p. responses (snd (snd (handler c req w))) = responses w @ [(400, p)])
            \<and> nextCalls (snd (snd (handler c req w))) = nextCalls w)
          \<or> (responses (snd (snd (handler c req w))) = responses w
            \<and> nextCalls (snd (snd (handler c req w))) = Suc (nextCalls w)))"
    if "returns (validateBody c) (body req)" "returns (validateQuery c) (query req)"
       "returns (validateHeaders c) (headers req)"
  proof -
    have r: "fst (handler c req w) = Inr ()"
      using handler_returns [OF that] .
    with handler_trichotomy [of c req w] show ?thesis by auto
  qed
  from handler_trichotomy [of c req w] ret show ?thesis by blast
qed

theorem C8_one_outcome_witness:
  "returns (validateBody sampleClosure) (body reqBadQuery)
   \<and> returns (validateQuery sampleClosure) (query reqBadQuery)
   \<and> returns (validateHeaders sampleClosure) (headers reqBadQuery)
   \<and> fst (handler sampleClosure reqBadQuery world0) = Inr ()
   \<and> (\<exists>p. responses (snd (snd (handler sampleClosure reqBadQuery world0)))
            = responses world0 @ [(400, p)])
   \<and> nextCalls (snd (snd (handler sampleClosure reqBadQuery world0))) = nextCalls world0"
proof -
  have r: "returns (validateBody sampleClosure) (body reqBadQuery)"
          "returns (validateQuery sampleClosure) (query reqBadQuery)"
          "returns (validateHeaders sampleClosure) (headers reqBadQuery)"
    by (simp_all add: returns_def sampleClosure_def sampleRequired_def reqBadQuery_def
          goodBody_def goodHeaders_def)
  have n: "nextCalls (snd (snd (handler sampleClosure reqBadQuery world0))) = nextCalls world0"
    by (simp add: handler_defs sampleClosure_def sampleRequired_def reqBadQuery_def
          goodBody_def world0_def)
  from C8_one_outcome [of sampleClosure reqBadQuery world0, THEN conjunct2] r
  have "fst (handler sampleClosure reqBadQuery world0) = Inr ()
       \<and> (((\<exists>p. responses (snd (snd (handler sampleClosure reqBadQuery world0)))
                  = responses world0 @ [(400, p)])
            \<and> nextCalls (snd (snd (handler sampleClosure reqBadQuery world0)))
                = nextCalls world0)
          \<or> (responses (snd (snd (handler sampleClosure reqBadQuery world0)))
                = responses world0
            \<and> nextCalls (snd (snd (handler sampleClosure reqBadQuery world0)))
                = Suc (nextCalls world0)))"
    by blast
  with n r show ?thesis by auto
qed

text \<open>
  The claim without the third way fails: the validator of a recursive schema throws on a
  deeply nested body, no block of the handler catches it, and the handler ends with no
  response written and \<^verbatim>\<open>next\<close> not called.
\<close>

theorem C8_outcome_counterexample:
  "createMiddleware sampleCompile
     \<lparr> bodySchema = recursiveSchema, querySchema = JUndefined, headersSchema = JUndefined \<rparr>
     world0
     = (Inr (handler recursiveClosure :: request \<Rightarrow> world \<Rightarrow> unit outcome),
        world0\<lparr>compiled := [recursiveSchema]\<rparr>)
   \<and> handler recursiveClosure reqDeep world0
       = (Inl (RangeError ''Maximum call stack size exceeded''), reqDeep,
          world0\<lparr>evaluated := [Body]\<rparr>)
   \<and> responses (world0\<lparr>evaluated := [Body]\<rparr>) = []
   \<and> nextCalls (world0\<lparr>evaluated := [Body]\<rparr>) = 0"
  by (simp add: createMiddleware_def compileIfGiven_def sampleCompile_def recursiveSchema_def
        recursiveClosure_def sampleRecursive_def reqDeep_def handler_defs world0_def)

section \<open>Compilation happens in the factory\<close>





end
